theory Spec2Isabelle
  imports Complex_Main "HOL-Library.Word"
begin

section \<open>Gaussian naive Bayes classification (NaiveBayes.h)\<close>

subsection \<open>The C type double\<close>

text \<open>
  A C \<open>double\<close> is modelled by its IEEE 754 classes: a finite number, the two
  infinities and not-a-number. Finite values are carried as exact reals, so rounding,
  overflow, underflow and the sign of zero are left out; the special values follow the
  IEEE rules the source relies on (\<open>0.0 / 0.0\<close> is not-a-number, every ordered
  comparison with not-a-number is false). A finite result here is the value the source's
  expression has before rounding; in C it may round, or overflow to an infinity and from
  there to not-a-number.
\<close>

datatype double = Fin real | PInf | NInf | NaN

text \<open>Addition, as in \<open>mean += x\<close> and \<open>divisor++\<close>.\<close>

fun dadd :: "double \<Rightarrow> double \<Rightarrow> double" where
  "dadd NaN _ = NaN"
| "dadd _ NaN = NaN"
| "dadd (Fin a) (Fin b) = Fin (a + b)"
| "dadd PInf NInf = NaN"
| "dadd NInf PInf = NaN"
| "dadd PInf _ = PInf"
| "dadd _ PInf = PInf"
| "dadd NInf _ = NInf"
| "dadd _ NInf = NInf"

fun dneg :: "double \<Rightarrow> double" where
  "dneg (Fin a) = Fin (- a)"
| "dneg PInf = NInf"
| "dneg NInf = PInf"
| "dneg NaN = NaN"

definition dsub :: "double \<Rightarrow> double \<Rightarrow> double" where
  "dsub a b = dadd a (dneg b)"

text \<open>The sign of a value that is not not-a-number: \<open>-1\<close>, \<open>0\<close> or \<open>1\<close>.\<close>

fun dsign :: "double \<Rightarrow> real" where
  "dsign (Fin a) = sgn a"
| "dsign PInf = 1"
| "dsign NInf = - 1"
| "dsign NaN = 0"

definition inf_of_sign :: "real \<Rightarrow> double" where
  "inf_of_sign g = (if g = 0 then NaN else if 0 < g then PInf else NInf)"

text \<open>Multiplication: an infinity times zero is not-a-number.\<close>

fun dmul :: "double \<Rightarrow> double \<Rightarrow> double" where
  "dmul NaN _ = NaN"
| "dmul _ NaN = NaN"
| "dmul (Fin a) (Fin b) = Fin (a * b)"
| "dmul a b = inf_of_sign (dsign a * dsign b)"

text \<open>
  Division: zero by zero and infinity by infinity are not-a-number, a non-zero finite
  number by zero is an infinity (the zero taken as positive), a finite number by an
  infinity is zero.
\<close>

fun ddiv :: "double \<Rightarrow> double \<Rightarrow> double" where
  "ddiv NaN _ = NaN"
| "ddiv _ NaN = NaN"
| "ddiv (Fin a) (Fin b) = (if b \<noteq> 0 then Fin (a / b) else inf_of_sign (sgn a))"
| "ddiv (Fin a) _ = Fin 0"
| "ddiv a (Fin b) = inf_of_sign (dsign a * (if b < 0 then - 1 else 1))"
| "ddiv _ _ = NaN"

fun dsqrt :: "double \<Rightarrow> double" where
  "dsqrt (Fin a) = (if 0 \<le> a then Fin (sqrt a) else NaN)"
| "dsqrt PInf = PInf"
| "dsqrt NInf = NaN"
| "dsqrt NaN = NaN"

fun dexp :: "double \<Rightarrow> double" where
  "dexp (Fin a) = Fin (exp a)"
| "dexp PInf = PInf"
| "dexp NInf = Fin 0"
| "dexp NaN = NaN"

text \<open>\<open>pow(x, 2)\<close>, the only use of \<open>pow\<close> in the source.\<close>

fun dpow2 :: "double \<Rightarrow> double" where
  "dpow2 (Fin a) = Fin (a\<^sup>2)"
| "dpow2 PInf = PInf"
| "dpow2 NInf = PInf"
| "dpow2 NaN = NaN"

text \<open>The comparison \<open>a > b\<close>: false as soon as one side is not-a-number.\<close>

fun dgt :: "double \<Rightarrow> double \<Rightarrow> bool" where
  "dgt NaN _ = False"
| "dgt _ NaN = False"
| "dgt (Fin a) (Fin b) = (b < a)"
| "dgt PInf PInf = False"
| "dgt PInf _ = True"
| "dgt NInf _ = False"
| "dgt (Fin a) NInf = True"
| "dgt (Fin a) PInf = False"

subsection \<open>Training data and attribute selectors\<close>

text \<open>
  Modelled from the spec: the declaration of \<open>TrainingItem\<close> (TrainingDataLinkedList.h) is
  not part of the source at hand. A training record carries a class label and five numeric
  feature values; the fields \<open>h\<close>, \<open>s\<close>, \<open>v\<close>, \<open>c\<close>, \<open>t\<close> of the source are named
  \<open>item_h\<close> \<dots> \<open>item_t\<close> here. The NULL-terminated linked list with head \<open>p_head\<close>
  is a HOL list, and \<open>strcmp(a, b) == 0\<close> is equality of strings.
\<close>

record TrainingItem =
  fruitName :: string
  item_h :: real
  item_s :: real
  item_v :: real
  item_c :: real
  item_t :: real

text \<open>
  Modelled from the spec: the attribute selectors are declared in the same absent header.
  The source's comments number them \<open>0: Hue, 1: Saturation, 2: Value, 3: Compactness\<close>;
  texture, the fifth feature kind, follows as 4. The parameter \<open>attr\<close> is a \<open>uint8_t\<close>.
\<close>

definition HUE :: "8 word" where "HUE = 0"
definition SATURATION :: "8 word" where "SATURATION = 1"
definition VALUE :: "8 word" where "VALUE = 2"
definition COMPACTNESS :: "8 word" where "COMPACTNESS = 3"
definition TEXTURE :: "8 word" where "TEXTURE = 4"

definition PI :: real where "PI = 3.14159"

definition NCLASSES :: nat where "NCLASSES = 7"

text \<open>
  Modelled from the spec: \<open>CV_PI\<close> comes from the OpenCV headers, which are not part of
  the source at hand; it is the constant \<open>\<pi>\<close> written out to double precision and beyond.
\<close>

definition CV_PI :: real where "CV_PI = 3.1415926535897932384626433832795"

subsection \<open>calcHSVCT_Mean\<close>

text \<open>
  The \<open>while\<close> loop of \<open>calcHSVCT_Mean\<close>, with the pair \<open>(mean, divisor)\<close> of its local
  variables as the loop state.
\<close>

fun mean_loop :: "TrainingItem list \<Rightarrow> string \<Rightarrow> 8 word \<Rightarrow> double \<times> double \<Rightarrow> double \<times> double" where
  "mean_loop [] name attr (mean, divisor) = (mean, divisor)"
| "mean_loop (p # rest) name attr (mean, divisor) =
     (if fruitName p = name \<and> item_h p \<noteq> 0 \<and> item_s p \<noteq> 0 \<and> item_v p \<noteq> 0 \<and> item_t p \<noteq> 0
      then mean_loop rest name attr
             (if HUE = attr then dadd mean (Fin (item_h p))
              else if SATURATION = attr then dadd mean (Fin (item_s p))
              else if VALUE = attr then dadd mean (Fin (item_v p))
              else if COMPACTNESS = attr then dadd mean (Fin (item_c p))
              else if TEXTURE = attr then dadd mean (Fin (item_t p))
              else mean,
              dadd divisor (Fin 1))
      else mean_loop rest name attr (mean, divisor))"

definition calcHSVCT_Mean :: "TrainingItem list \<Rightarrow> string \<Rightarrow> 8 word \<Rightarrow> double" where
  "calcHSVCT_Mean p_head name attr =
     (case mean_loop p_head name attr (Fin 0, Fin 0) of
        (mean, divisor) \<Rightarrow> if dgt divisor (Fin 0) then ddiv mean divisor else mean)"

subsection \<open>calcHSVCT_SD\<close>

text \<open>
  The loop of \<open>calcHSVCT_SD\<close>; \<open>avg\<close> is computed before the loop and only read in
  it, the loop state is \<open>(sumOfSqDiff, divisor)\<close>.
\<close>

fun sd_loop :: "TrainingItem list \<Rightarrow> string \<Rightarrow> 8 word \<Rightarrow> double \<Rightarrow> double \<times> double \<Rightarrow> double \<times> double" where
  "sd_loop [] name attr avg (sumOfSqDiff, divisor) = (sumOfSqDiff, divisor)"
| "sd_loop (p # rest) name attr avg (sumOfSqDiff, divisor) =
     (if fruitName p = name \<and> item_h p \<noteq> 0 \<and> item_s p \<noteq> 0 \<and> item_v p \<noteq> 0 \<and>
         item_c p \<noteq> 0 \<and> item_t p \<noteq> 0
      then sd_loop rest name attr avg
             (if HUE = attr then dadd sumOfSqDiff (dpow2 (dsub (Fin (item_h p)) avg))
              else if SATURATION = attr then dadd sumOfSqDiff (dpow2 (dsub (Fin (item_s p)) avg))
              else if VALUE = attr then dadd sumOfSqDiff (dpow2 (dsub (Fin (item_v p)) avg))
              else if COMPACTNESS = attr then dadd sumOfSqDiff (dpow2 (dsub (Fin (item_c p)) avg))
              else if TEXTURE = attr then dadd sumOfSqDiff (dpow2 (dsub (Fin (item_t p)) avg))
              else sumOfSqDiff,
              dadd divisor (Fin 1))
      else sd_loop rest name attr avg (sumOfSqDiff, divisor))"

definition calcHSVCT_SD :: "TrainingItem list \<Rightarrow> string \<Rightarrow> 8 word \<Rightarrow> double" where
  "calcHSVCT_SD p_head name attr =
     (let avg = calcHSVCT_Mean p_head name attr
      in case sd_loop p_head name attr avg (Fin 0, Fin 0) of
           (sumOfSqDiff, divisor) \<Rightarrow> dsqrt (ddiv sumOfSqDiff divisor))"

subsection \<open>calcHSVCT_PDF\<close>

definition calcHSVCT_PDF :: "TrainingItem list \<Rightarrow> string \<Rightarrow> 8 word \<Rightarrow> double \<Rightarrow> double" where
  "calcHSVCT_PDF p_head name attr val =
     (let pdf = Fin 0;
          mean = calcHSVCT_Mean p_head name attr;
          sd = calcHSVCT_SD p_head name attr
      in if dgt sd (Fin 0)
         then let a = ddiv (Fin 1) (dmul sd (dsqrt (dmul (Fin 2) (Fin CV_PI))));
                  b = dexp (ddiv (dmul (Fin (- 1)) (dpow2 (dsub val mean)))
                                 (dmul (Fin 2) (dpow2 sd)))
              in dmul a b
         else pdf)"

subsection \<open>calcPosterior\<close>

text \<open>
  \<open>CvScalar\<close> is OpenCV's struct of one array \<open>double val[4]\<close>; \<open>scalar_val sc i\<close> reads
  \<open>sc.val[i]\<close> for the indices \<open>0\<close> to \<open>3\<close> the array has.
\<close>

record CvScalar =
  val0 :: double
  val1 :: double
  val2 :: double
  val3 :: double

definition scalar_val :: "CvScalar \<Rightarrow> nat \<Rightarrow> double" where
  "scalar_val sc i = (if i = 0 then val0 sc else if i = 1 then val1 sc else if i = 2 then val2 sc else val3 sc)"

text \<open>
  The two \<open>printf\<close> calls of \<open>calcPosterior\<close> write to standard output. Each call is
  recorded as one event carrying the arguments that are printed: the class name with the
  five densities, and the class name with the posterior.
\<close>

datatype printed =
    PrintDensities string double double double double double
  | PrintPosterior string double

text \<open>\<open>calcPosterior\<close> returns \<open>post\<close>; the second component is what it printed.\<close>

definition calcPosterior ::
  "TrainingItem list \<Rightarrow> string \<Rightarrow> CvScalar \<Rightarrow> double \<Rightarrow> double \<Rightarrow> double \<times> printed list" where
  "calcPosterior tDataHead cls sampleHSV sampleC texture =
     (let pH = calcHSVCT_PDF tDataHead cls HUE (scalar_val sampleHSV (unat HUE));
          pS = calcHSVCT_PDF tDataHead cls SATURATION (scalar_val sampleHSV (unat SATURATION));
          pV = calcHSVCT_PDF tDataHead cls VALUE (scalar_val sampleHSV (unat VALUE));
          pC = calcHSVCT_PDF tDataHead cls COMPACTNESS sampleC;
          pT = calcHSVCT_PDF tDataHead cls TEXTURE texture;
          post = dmul (dmul (dmul pH pS) pV) pC
      in (post, [PrintDensities cls pH pS pV pC pT, PrintPosterior cls post]))"

subsection \<open>calcPosteriors\<close>

text \<open>The field \<open>class\<close> of \<open>HSV_Range\<close> is named \<open>className\<close>.\<close>

record HSV_Range =
  className :: string
  h1 :: "16 word"
  h2 :: "16 word"
  h3 :: "16 word"
  h4 :: "16 word"
  s1 :: "16 word"
  s2 :: "16 word"
  v1 :: "16 word"
  v2 :: "16 word"

type_synonym Posteriors = "(string \<times> double) list"

text \<open>
  Modelled from the spec: \<open>addPosterior\<close> and the type \<open>Posteriors\<close> are declared in
  the absent TrainingDataLinkedList.h. The spec has each (label, score) pair appended to the
  result collection, which starts empty (\<open>NULL\<close>).
\<close>

definition addPosterior :: "Posteriors \<Rightarrow> string \<Rightarrow> double \<Rightarrow> Posteriors" where
  "addPosterior post name pProb = post @ [(name, pProb)]"

text \<open>
  The \<open>for\<close> loop of \<open>calcPosteriors\<close>, from the counter \<open>cls\<close> on. The array
  \<open>classes\<close> is a list; reading \<open>classes[cls]\<close> beyond its end has no defined result
  in C and is \<open>None\<close> here. The loop state is the collection built so far, with the output
  printed so far.
\<close>

function calcPosteriors_loop ::
  "TrainingItem list \<Rightarrow> HSV_Range list \<Rightarrow> CvScalar \<Rightarrow> double \<Rightarrow> double \<Rightarrow> nat \<Rightarrow>
   Posteriors \<times> printed list \<Rightarrow> (Posteriors \<times> printed list) option" where
  "calcPosteriors_loop tData classes hsvSample cSample texture cls (post, out) =
     (if cls < NCLASSES
      then if cls < length classes
           then case calcPosterior tData (className (classes ! cls)) hsvSample cSample texture of
                  (pProb, lines) \<Rightarrow>
                    calcPosteriors_loop tData classes hsvSample cSample texture (cls + 1)
                      (addPosterior post (className (classes ! cls)) pProb, out @ lines)
           else None
      else Some (post, out))"
  by pat_completeness auto
termination
  by (relation "measure (\<lambda>(tData, classes, hsvSample, cSample, texture, cls, acc). NCLASSES - cls)") auto

definition calcPosteriors ::
  "TrainingItem list \<Rightarrow> HSV_Range list \<Rightarrow> CvScalar \<Rightarrow> double \<Rightarrow> double \<Rightarrow>
   (Posteriors \<times> printed list) option" where
  "calcPosteriors tData classes hsvSample cSample texture =
     calcPosteriors_loop tData classes hsvSample cSample texture 0 ([], [])"

subsection \<open>The statistics as the specification words them\<close>

text \<open>The five feature kinds, the selector each is passed as, and the field each names.\<close>

datatype FeatureKind = Hue | Saturation | Value | Compactness | Texture

fun attr_of :: "FeatureKind \<Rightarrow> 8 word" where
  "attr_of Hue = HUE"
| "attr_of Saturation = SATURATION"
| "attr_of Value = VALUE"
| "attr_of Compactness = COMPACTNESS"
| "attr_of Texture = TEXTURE"

fun feature_of :: "FeatureKind \<Rightarrow> TrainingItem \<Rightarrow> real" where
  "feature_of Hue p = item_h p"
| "feature_of Saturation p = item_s p"
| "feature_of Value p = item_v p"
| "feature_of Compactness p = item_c p"
| "feature_of Texture p = item_t p"

text \<open>
  The validity guard of section 3 of the specification: the label matches and hue,
  saturation, value and texture are all non-zero. The second guard asks for a non-zero
  compactness as well.
\<close>

definition valid_record :: "string \<Rightarrow> TrainingItem \<Rightarrow> bool" where
  "valid_record classLabel p \<longleftrightarrow>
     fruitName p = classLabel \<and> item_h p \<noteq> 0 \<and> item_s p \<noteq> 0 \<and> item_v p \<noteq> 0 \<and> item_t p \<noteq> 0"

definition valid_record_all5 :: "string \<Rightarrow> TrainingItem \<Rightarrow> bool" where
  "valid_record_all5 classLabel p \<longleftrightarrow> valid_record classLabel p \<and> item_c p \<noteq> 0"

text \<open>Sum over count, and 0 for no values at all.\<close>

definition average :: "real list \<Rightarrow> real" where
  "average xs = (if xs = [] then 0 else sum_list xs / real (length xs))"

definition spec_mean :: "TrainingItem list \<Rightarrow> string \<Rightarrow> FeatureKind \<Rightarrow> real" where
  "spec_mean records classLabel feature =
     average (map (feature_of feature) (filter (valid_record classLabel) records))"

text \<open>
  The population standard deviation of a list of values: the square root of the average
  squared deviation from the values' own average, divided by the count and not by the
  count less one.
\<close>

definition population_sd :: "real list \<Rightarrow> real" where
  "population_sd xs = sqrt (sum_list (map (\<lambda>x. (x - average xs)\<^sup>2) xs) / real (length xs))"

subsection \<open>Auxiliary notions for the loop invariants\<close>

text \<open>
  The value the \<open>if\<close> chain of both loops reads from a record for a selector, and
  whether the chain has a branch for the selector at all.
\<close>

definition known_attr :: "8 word \<Rightarrow> bool" where
  "known_attr attr \<longleftrightarrow>
     HUE = attr \<or> SATURATION = attr \<or> VALUE = attr \<or> COMPACTNESS = attr \<or> TEXTURE = attr"

definition selected :: "8 word \<Rightarrow> TrainingItem \<Rightarrow> real" where
  "selected attr p =
     (if HUE = attr then item_h p
      else if SATURATION = attr then item_s p
      else if VALUE = attr then item_v p
      else if COMPACTNESS = attr then item_c p
      else if TEXTURE = attr then item_t p
      else 0)"

definition sq_diff :: "8 word \<Rightarrow> real \<Rightarrow> TrainingItem \<Rightarrow> real" where
  "sq_diff attr avg p = (if known_attr attr then (selected attr p - avg)\<^sup>2 else 0)"


subsection \<open>Example training sets\<close>

text \<open>Three records of one class with hues 10, 20 and 30, every other feature 1.\<close>

definition apples :: "TrainingItem list" where
  "apples =
     [\<lparr>fruitName = ''apple'', item_h = 10, item_s = 1, item_v = 1, item_c = 1, item_t = 1\<rparr>,
      \<lparr>fruitName = ''apple'', item_h = 20, item_s = 1, item_v = 1, item_c = 1, item_t = 1\<rparr>,
      \<lparr>fruitName = ''apple'', item_h = 30, item_s = 1, item_v = 1, item_c = 1, item_t = 1\<rparr>]"

text \<open>A class whose feature values are all 50.\<close>

definition fifties :: "TrainingItem list" where
  "fifties =
     [\<lparr>fruitName = ''plum'', item_h = 50, item_s = 50, item_v = 50, item_c = 50, item_t = 50\<rparr>,
      \<lparr>fruitName = ''plum'', item_h = 50, item_s = 50, item_v = 50, item_c = 50, item_t = 50\<rparr>]"

text \<open>
  The class of \<open>apples\<close> with a first record whose compactness is 0 and whose other
  features are set.
\<close>

definition no_compactness :: TrainingItem where
  "no_compactness =
     \<lparr>fruitName = ''apple'', item_h = 10, item_s = 1, item_v = 1, item_c = 0, item_t = 1\<rparr>"

definition mixed :: "TrainingItem list" where
  "mixed =
     [no_compactness,
      \<lparr>fruitName = ''apple'', item_h = 20, item_s = 1, item_v = 1, item_c = 1, item_t = 1\<rparr>,
      \<lparr>fruitName = ''apple'', item_h = 30, item_s = 1, item_v = 1, item_c = 1, item_t = 1\<rparr>]"


definition kiwis :: "TrainingItem list" where
  "kiwis =
     [\<lparr>fruitName = ''kiwi'', item_h = 1, item_s = 1, item_v = 1, item_c = 1, item_t = 1\<rparr>,
      \<lparr>fruitName = ''kiwi'', item_h = 3, item_s = 3, item_v = 3, item_c = 3, item_t = 3\<rparr>]"

definition sample2 :: CvScalar where
  "sample2 = \<lparr>val0 = Fin 2, val1 = Fin 2, val2 = Fin 2, val3 = Fin 0\<rparr>"


text \<open>Seven candidate classes; the threshold ranges are not read by \<open>calcPosteriors\<close>.\<close>

definition candidate :: "string \<Rightarrow> HSV_Range" where
  "candidate name =
     \<lparr>className = name, h1 = 0, h2 = 0, h3 = 0, h4 = 0, s1 = 0, s2 = 0, v1 = 0, v2 = 0\<rparr>"

definition seven_classes :: "HSV_Range list" where
  "seven_classes =
     map candidate [''apple'', ''banana'', ''cherry'', ''kiwi'', ''lemon'', ''orange'', ''pear'']"

subsection \<open>Reading the printed output\<close>

text \<open>The \<open>posterior(...)\<close> lines of an output, in the order they were printed.\<close>

fun posterior_lines :: "printed list \<Rightarrow> (string \<times> double) list" where
  "posterior_lines [] = []"
| "posterior_lines (PrintPosterior name post # rest) = (name, post) # posterior_lines rest"
| "posterior_lines (PrintDensities name pH pS pV pC pT # rest) = posterior_lines rest"

section \<open>Properties\<close>

subsection \<open>The loops over finite accumulators\<close>

lemma mean_loop_step:
  "mean_loop (p # rest) name attr (Fin m, Fin d) =
     mean_loop rest name attr
       (if valid_record name p then (Fin (m + selected attr p), Fin (d + 1)) else (Fin m, Fin d))"
  by (simp add: valid_record_def selected_def)

lemma mean_loop_fin:
  "mean_loop recs name attr (Fin m, Fin d) =
     (Fin (m + sum_list (map (selected attr) (filter (valid_record name) recs))),
      Fin (d + real (length (filter (valid_record name) recs))))"
proof (induction recs arbitrary: m d)
  case Nil
  show ?case by simp
next
  case (Cons p rest)
  show ?case
    by (cases "valid_record name p")
       (simp_all only: mean_loop_step Cons.IH if_True if_False filter.simps list.map
          sum_list.Cons list.size add.assoc of_nat_Suc, simp_all)
qed

lemma sd_loop_step:
  "sd_loop (p # rest) name attr (Fin a) (Fin q, Fin d) =
     sd_loop rest name attr (Fin a)
       (if valid_record_all5 name p then (Fin (q + sq_diff attr a p), Fin (d + 1))
        else (Fin q, Fin d))"
  by (simp add: valid_record_all5_def valid_record_def sq_diff_def selected_def known_attr_def
      dsub_def)

lemma sd_loop_fin:
  "sd_loop recs name attr (Fin a) (Fin q, Fin d) =
     (Fin (q + sum_list (map (sq_diff attr a) (filter (valid_record_all5 name) recs))),
      Fin (d + real (length (filter (valid_record_all5 name) recs))))"
proof (induction recs arbitrary: q d)
  case Nil
  show ?case by simp
next
  case (Cons p rest)
  show ?case
    by (cases "valid_record_all5 name p")
       (simp_all only: sd_loop_step Cons.IH if_True if_False filter.simps list.map
          sum_list.Cons list.size add.assoc of_nat_Suc, simp_all)
qed

lemma mean_fin:
  "calcHSVCT_Mean recs name attr =
     Fin (average (map (selected attr) (filter (valid_record name) recs)))"
  by (simp add: calcHSVCT_Mean_def mean_loop_fin average_def)

lemma sq_diff_nonneg: "0 \<le> sq_diff attr a p"
  by (simp add: sq_diff_def)

lemma sum_sq_diff_nonneg: "0 \<le> sum_list (map (sq_diff attr a) ps)"
  by (induction ps) (simp_all add: sq_diff_nonneg)

lemma sd_cases:
  "calcHSVCT_SD recs name attr =
     (if filter (valid_record_all5 name) recs = [] then NaN
      else Fin (sqrt (sum_list (map (sq_diff attr
                                       (average (map (selected attr)
                                                  (filter (valid_record name) recs))))
                                 (filter (valid_record_all5 name) recs))
                      / real (length (filter (valid_record_all5 name) recs)))))"
  by (simp add: calcHSVCT_SD_def mean_fin sd_loop_fin inf_of_sign_def sum_sq_diff_nonneg)

lemma selected_attr_of: "selected (attr_of feature) p = feature_of feature p"
  by (cases feature)
     (simp_all add: selected_def HUE_def SATURATION_def VALUE_def COMPACTNESS_def TEXTURE_def)

lemma known_attr_of: "known_attr (attr_of feature)"
  by (cases feature) (simp_all add: known_attr_def)

lemma selected_unknown: "\<not> known_attr attr \<Longrightarrow> selected attr p = 0"
  by (simp add: selected_def known_attr_def)

subsection \<open>The mean\<close>

text \<open>
  C4. For every record list, class label and feature kind, \<open>calcHSVCT_Mean\<close> returns the
  sum of the feature's values over the records whose label is the class label and whose
  hue, saturation, value and texture are all non-zero, divided by the number of those
  records; when there is no such record it returns 0.0.
\<close>

theorem calcHSVCT_Mean_is_average:
  "calcHSVCT_Mean records classLabel (attr_of feature) =
     Fin (sum_list (map (feature_of feature) (filter (valid_record classLabel) records))
          / real (length (filter (valid_record classLabel) records)))
   \<and> calcHSVCT_Mean records classLabel (attr_of feature) = Fin (spec_mean records classLabel feature)
   \<and> (filter (valid_record classLabel) records = [] \<longrightarrow>
        calcHSVCT_Mean records classLabel (attr_of feature) = Fin 0)"
  by (simp add: mean_fin spec_mean_def average_def selected_attr_of cong: map_cong)

theorem calcHSVCT_Mean_is_average_witness:
  "calcHSVCT_Mean apples ''apple'' HUE = Fin 20
   \<and> filter (valid_record ''pear'') apples = []
   \<and> calcHSVCT_Mean apples ''pear'' HUE = Fin 0"
  using calcHSVCT_Mean_is_average [of apples "''apple''" Hue]
    calcHSVCT_Mean_is_average [of apples "''pear''" Hue]
  by (simp add: apples_def valid_record_def)

subsection \<open>The standard deviation without data\<close>

text \<open>
  C1. When no record passes the filter of \<open>calcHSVCT_SD\<close>, the function divides zero by
  zero and returns the not-a-number that results, for every selector: it does not return 0.0
  or a sentinel of its own.
\<close>

theorem calcHSVCT_SD_no_data_is_NaN:
  "filter (valid_record_all5 name) recs = [] \<Longrightarrow> calcHSVCT_SD recs name attr = NaN"
  by (simp add: sd_cases)

theorem calcHSVCT_SD_no_data_is_NaN_witness:
  "filter (valid_record_all5 ''pear'') apples = [] \<and> calcHSVCT_SD apples ''pear'' HUE = NaN
   \<and> calcHSVCT_SD [] ''apple'' HUE = NaN"
  using calcHSVCT_SD_no_data_is_NaN [of "''pear''" apples HUE]
    calcHSVCT_SD_no_data_is_NaN [of "''apple''" "[]" HUE]
  by (simp add: apples_def valid_record_all5_def valid_record_def)

subsection \<open>The standard deviation with data\<close>

text \<open>
  When the two loops select the same records of the class, and there is one at least,
  \<open>calcHSVCT_SD\<close> is the population standard deviation of the feature over them.
\<close>

lemma calcHSVCT_SD_population:
  assumes same: "filter (valid_record name) recs = filter (valid_record_all5 name) recs"
    and some: "filter (valid_record_all5 name) recs \<noteq> []"
  shows "calcHSVCT_SD recs name (attr_of feature) =
     Fin (population_sd (map (feature_of feature) (filter (valid_record_all5 name) recs)))"
proof -
  have sel: "map (selected (attr_of feature)) ps = map (feature_of feature) ps" for ps
    by (simp add: selected_attr_of)
  have sq: "map (sq_diff (attr_of feature) a) ps = map (\<lambda>p. (feature_of feature p - a)\<^sup>2) ps"
    for a ps
    by (simp add: sq_diff_def known_attr_of selected_attr_of)
  show ?thesis
    using some
    by (simp add: sd_cases same sel sq population_sd_def comp_def)
qed

text \<open>
  C5. On the training set \<open>mixed\<close>, whose first record has compactness 0, the mean of the
  hue is taken over the three records with hues 10, 20 and 30, and the loop of
  \<open>calcHSVCT_SD\<close> scans the two records with hues 20 and 30 only: the value returned,
  \<open>sqrt 50\<close>, is the population standard deviation of neither set of records.
\<close>

theorem calcHSVCT_SD_unequal_filters:
  "calcHSVCT_Mean mixed ''apple'' HUE = Fin 20
   \<and> calcHSVCT_SD mixed ''apple'' HUE = Fin (sqrt 50)
   \<and> map item_h (filter (valid_record ''apple'') mixed) = [10, 20, 30]
   \<and> population_sd [10, 20, 30] = sqrt (200 / 3)
   \<and> map item_h (filter (valid_record_all5 ''apple'') mixed) = [20, 30]
   \<and> population_sd [20, 30] = 5
   \<and> sqrt 50 \<noteq> sqrt (200 / 3) \<and> sqrt 50 \<noteq> (5 :: real)"
proof -
  have m: "calcHSVCT_Mean mixed ''apple'' HUE = Fin 20"
    by (simp add: calcHSVCT_Mean_def mixed_def no_compactness_def)
  have s: "calcHSVCT_SD mixed ''apple'' HUE = Fin (sqrt 50)"
    by (simp add: calcHSVCT_SD_def m) (simp add: mixed_def no_compactness_def dsub_def)
  have f4: "map item_h (filter (valid_record ''apple'') mixed) = [10, 20, 30]"
    by (simp add: mixed_def no_compactness_def valid_record_def)
  have f5: "map item_h (filter (valid_record_all5 ''apple'') mixed) = [20, 30]"
    by (simp add: mixed_def no_compactness_def valid_record_def valid_record_all5_def)
  have p3: "population_sd [10, 20, 30] = sqrt (200 / 3)"
    by (simp add: population_sd_def average_def)
  have five: "sqrt 25 = (5 :: real)"
    using real_sqrt_abs [of 5] by simp
  have "population_sd [20, 30] = sqrt 25"
    by (simp add: population_sd_def average_def)
  then have p2: "population_sd [20, 30] = 5"
    by (simp only: five)
  have n1: "sqrt 50 \<noteq> sqrt (200 / 3)" by simp
  have n2: "sqrt 50 \<noteq> (5 :: real)"
  proof
    assume "sqrt 50 = (5 :: real)"
    then have "(sqrt 50)\<^sup>2 = (5 :: real)\<^sup>2" by (rule arg_cong)
    then show False by simp
  qed
  from m s f4 f5 p3 p2 n1 n2 show ?thesis by blast
qed

subsection \<open>The validity guards\<close>





subsection \<open>The density\<close>

lemma pdf_positive_sd:
  assumes "calcHSVCT_SD recs name attr = Fin sd" and "0 < sd"
    and "calcHSVCT_Mean recs name attr = Fin m"
  shows "calcHSVCT_PDF recs name attr obs =
     (case obs of
        Fin x \<Rightarrow> Fin ((1 / (sd * sqrt (2 * CV_PI))) * exp (- ((x - m)\<^sup>2) / (2 * sd\<^sup>2)))
      | NaN \<Rightarrow> NaN
      | _ \<Rightarrow> Fin 0)"
proof -
  have "0 < CV_PI" by (simp add: CV_PI_def)
  with assms show ?thesis
    by (cases obs) (simp_all add: calcHSVCT_PDF_def dsub_def inf_of_sign_def)
qed

text \<open>
  C3. Whenever the standard deviation computed by \<open>calcHSVCT_SD\<close> is not greater than
  zero (it is zero, or it is the not-a-number of a class without data), \<open>calcHSVCT_PDF\<close>
  returns exactly 0.0, whatever the observed value is, not-a-number and the infinities
  included.
\<close>

theorem calcHSVCT_PDF_zero_unless_sd_positive:
  assumes "\<not> dgt (calcHSVCT_SD recs name attr) (Fin 0)"
  shows "calcHSVCT_PDF recs name attr obs = Fin 0
    \<and> (calcHSVCT_SD recs name attr = Fin 0 \<or> calcHSVCT_SD recs name attr = NaN)"
proof -
  have "calcHSVCT_PDF recs name attr obs = Fin 0"
    using assms by (simp add: calcHSVCT_PDF_def)
  moreover have "calcHSVCT_SD recs name attr = Fin 0 \<or> calcHSVCT_SD recs name attr = NaN"
    using assms sum_sq_diff_nonneg
    by (cases "filter (valid_record_all5 name) recs = []") (fastforce simp add: sd_cases less_le)+
  ultimately show ?thesis by simp
qed

theorem calcHSVCT_PDF_zero_unless_sd_positive_witness:
  "calcHSVCT_SD [] ''plum'' HUE = NaN
   \<and> \<not> dgt (calcHSVCT_SD [] ''plum'' HUE) (Fin 0)
   \<and> calcHSVCT_PDF [] ''plum'' HUE (Fin 50) = Fin 0
   \<and> calcHSVCT_SD fifties ''plum'' HUE = Fin 0
   \<and> \<not> dgt (calcHSVCT_SD fifties ''plum'' HUE) (Fin 0)
   \<and> calcHSVCT_PDF fifties ''plum'' HUE (Fin 50) = Fin 0
   \<and> calcHSVCT_PDF fifties ''plum'' HUE NaN = Fin 0"
proof -
  have a: "calcHSVCT_SD [] ''plum'' HUE = NaN"
    by (simp add: calcHSVCT_SD_def inf_of_sign_def)
  have b: "calcHSVCT_SD fifties ''plum'' HUE = Fin 0"
    by (simp add: calcHSVCT_SD_def calcHSVCT_Mean_def fifties_def dsub_def)
  show ?thesis
    using calcHSVCT_PDF_zero_unless_sd_positive [of "[]" "''plum''" HUE "Fin 50"]
      calcHSVCT_PDF_zero_unless_sd_positive [of fifties "''plum''" HUE "Fin 50"]
      calcHSVCT_PDF_zero_unless_sd_positive [of fifties "''plum''" HUE NaN]
    by (simp add: a b)
qed

text \<open>
  C7. When the standard deviation is a number greater than zero, \<open>calcHSVCT_PDF\<close> returns,
  for a finite observed value, \<open>(1 / (sd * sqrt (2 * \<pi>))) * exp (- (x - mean)\<^sup>2 / (2 * sd\<^sup>2))\<close>
  with OpenCV's \<open>CV_PI\<close> for \<open>\<pi>\<close> and not the five-decimal \<open>PI\<close> the file defines. An
  infinite observed value gives 0.0 and not-a-number gives not-a-number, as the same formula
  does in IEEE arithmetic.
\<close>

theorem calcHSVCT_PDF_gaussian:
  assumes "calcHSVCT_SD recs name attr = Fin standardDeviation" and "0 < standardDeviation"
    and "calcHSVCT_Mean recs name attr = Fin mean"
  shows "calcHSVCT_PDF recs name attr obs =
     (case obs of
        Fin observedValue \<Rightarrow>
          Fin ((1 / (standardDeviation * sqrt (2 * CV_PI)))
               * exp (- ((observedValue - mean)\<^sup>2) / (2 * standardDeviation\<^sup>2)))
      | NaN \<Rightarrow> NaN
      | _ \<Rightarrow> Fin 0)
    \<and> CV_PI = 3.1415926535897932384626433832795 \<and> CV_PI \<noteq> PI"
proof -
  have "CV_PI \<noteq> PI" by (simp add: CV_PI_def PI_def)
  with pdf_positive_sd [OF assms, of obs] show ?thesis by (simp add: CV_PI_def)
qed

theorem calcHSVCT_PDF_gaussian_witness:
  "calcHSVCT_SD apples ''apple'' HUE = Fin (sqrt (200 / 3)) \<and> 0 < sqrt (200 / 3 :: real)
   \<and> calcHSVCT_Mean apples ''apple'' HUE = Fin 20
   \<and> calcHSVCT_PDF apples ''apple'' HUE (Fin 20) = Fin (1 / (sqrt (200 / 3) * sqrt (2 * CV_PI)))"
proof -
  have m: "calcHSVCT_Mean apples ''apple'' HUE = Fin 20"
    by (simp add: calcHSVCT_Mean_def apples_def)
  have s: "calcHSVCT_SD apples ''apple'' HUE = Fin (sqrt (200 / 3))"
    by (simp add: calcHSVCT_SD_def m) (simp add: apples_def dsub_def)
  have p: "0 < sqrt (200 / 3 :: real)" by simp
  show ?thesis
    using calcHSVCT_PDF_gaussian [OF s p m, of "Fin 20"] m s by simp
qed

text \<open>
  C10. For a selector that is none of the five feature kinds, \<open>calcHSVCT_PDF\<close> returns
  exactly 0.0 for every record list, class label and observed value: the mean loop adds
  nothing to the sum while its divisor still counts the matching valid records, so the mean
  is 0; the sum of squared differences stays 0, so the standard deviation is 0, or
  not-a-number when no record passes the filter; either way the test \<open>sd > 0\<close> fails.
\<close>

theorem calcHSVCT_PDF_unknown_attr:
  assumes "attr \<noteq> HUE" and "attr \<noteq> SATURATION" and "attr \<noteq> VALUE"
    and "attr \<noteq> COMPACTNESS" and "attr \<noteq> TEXTURE"
  shows "calcHSVCT_PDF recs name attr obs = Fin 0
    \<and> mean_loop recs name attr (Fin 0, Fin 0) =
        (Fin 0, Fin (real (length (filter (valid_record name) recs))))
    \<and> calcHSVCT_Mean recs name attr = Fin 0
    \<and> sd_loop recs name attr (Fin 0) (Fin 0, Fin 0) =
        (Fin 0, Fin (real (length (filter (valid_record_all5 name) recs))))
    \<and> calcHSVCT_SD recs name attr =
        (if filter (valid_record_all5 name) recs = [] then NaN else Fin 0)"
proof -
  have unknown: "\<not> known_attr attr"
    using assms by (auto simp: known_attr_def)
  have sel: "map (selected attr) ps = map (\<lambda>p. 0) ps" for ps
    by (simp add: selected_unknown [OF unknown])
  have sq: "map (sq_diff attr a) ps = map (\<lambda>p. 0) ps" for a ps
    by (simp add: sq_diff_def unknown)
  have zero: "sum_list (map (\<lambda>p. 0::real) ps) = 0" for ps :: "TrainingItem list"
    by (induction ps) simp_all
  have loop: "mean_loop recs name attr (Fin 0, Fin 0) =
        (Fin 0, Fin (real (length (filter (valid_record name) recs))))"
    by (simp add: mean_loop_fin sel zero)
  have mean: "calcHSVCT_Mean recs name attr = Fin 0"
    by (simp add: mean_fin average_def sel zero)
  have sdl: "sd_loop recs name attr (Fin 0) (Fin 0, Fin 0) =
        (Fin 0, Fin (real (length (filter (valid_record_all5 name) recs))))"
    by (simp add: sd_loop_fin sq zero)
  have sd: "calcHSVCT_SD recs name attr =
        (if filter (valid_record_all5 name) recs = [] then NaN else Fin 0)"
    by (simp add: sd_cases sq zero)
  have "\<not> dgt (calcHSVCT_SD recs name attr) (Fin 0)"
    by (simp add: sd)
  then have "calcHSVCT_PDF recs name attr obs = Fin 0"
    by (simp add: calcHSVCT_PDF_def)
  with loop mean sdl sd show ?thesis by simp
qed

theorem calcHSVCT_PDF_unknown_attr_witness:
  "(5 :: 8 word) \<noteq> HUE \<and> (5 :: 8 word) \<noteq> SATURATION \<and> (5 :: 8 word) \<noteq> VALUE
   \<and> (5 :: 8 word) \<noteq> COMPACTNESS \<and> (5 :: 8 word) \<noteq> TEXTURE
   \<and> calcHSVCT_PDF apples ''apple'' 5 (Fin 20) = Fin 0
   \<and> calcHSVCT_Mean apples ''apple'' 5 = Fin 0
   \<and> calcHSVCT_SD apples ''apple'' 5 = Fin 0
   \<and> calcHSVCT_SD apples ''pear'' 5 = NaN"
  using calcHSVCT_PDF_unknown_attr [of 5 apples "''apple''" "Fin 20"]
    calcHSVCT_PDF_unknown_attr [of 5 apples "''pear''" "Fin 20"]
  by (simp add: HUE_def SATURATION_def VALUE_def COMPACTNESS_def TEXTURE_def
      apples_def valid_record_all5_def valid_record_def)


lemma pdf_no_data: "calcHSVCT_PDF [] name attr obs = Fin 0"
  by (simp add: calcHSVCT_PDF_def calcHSVCT_SD_def inf_of_sign_def)

lemma kiwis_mean: "calcHSVCT_Mean kiwis ''kiwi'' (attr_of feature) = Fin 2"
  by (cases feature)
     (simp_all add: mean_fin kiwis_def valid_record_def average_def selected_attr_of
        del: attr_of.simps)

lemma kiwis_sd: "calcHSVCT_SD kiwis ''kiwi'' (attr_of feature) = Fin 1"
  by (cases feature)
     (simp_all add: sd_cases kiwis_def valid_record_def valid_record_all5_def average_def
        selected_attr_of sq_diff_def known_attr_of del: attr_of.simps)

subsection \<open>The posterior of one class\<close>

text \<open>
  C2. The posterior returned by \<open>calcPosterior\<close> is the product of the four densities
  of hue, saturation, value and compactness at the sample's values for them. The texture
  density is computed, since it is printed with the other four, and is no factor of the
  product: two calls that differ in the texture argument only return the same posterior.
\<close>

theorem calcPosterior_product_excludes_texture:
  "fst (calcPosterior tData cls hsv cS tex) =
     dmul (dmul (dmul (calcHSVCT_PDF tData cls HUE (val0 hsv))
                      (calcHSVCT_PDF tData cls SATURATION (val1 hsv)))
                (calcHSVCT_PDF tData cls VALUE (val2 hsv)))
          (calcHSVCT_PDF tData cls COMPACTNESS cS)
   \<and> snd (calcPosterior tData cls hsv cS tex) =
       [PrintDensities cls (calcHSVCT_PDF tData cls HUE (val0 hsv))
          (calcHSVCT_PDF tData cls SATURATION (val1 hsv))
          (calcHSVCT_PDF tData cls VALUE (val2 hsv))
          (calcHSVCT_PDF tData cls COMPACTNESS cS)
          (calcHSVCT_PDF tData cls TEXTURE tex),
        PrintPosterior cls (fst (calcPosterior tData cls hsv cS tex))]
   \<and> fst (calcPosterior tData cls hsv cS tex) = fst (calcPosterior tData cls hsv cS tex')"
  by (simp add: calcPosterior_def Let_def scalar_val_def HUE_def SATURATION_def VALUE_def)

theorem calcPosterior_product_excludes_texture_witness:
  "fst (calcPosterior kiwis ''kiwi'' sample2 (Fin 2) (Fin 2)) =
     fst (calcPosterior kiwis ''kiwi'' sample2 (Fin 2) (Fin 3))
   \<and> calcHSVCT_PDF kiwis ''kiwi'' TEXTURE (Fin 2) = Fin (1 / sqrt (2 * CV_PI))
   \<and> calcHSVCT_PDF kiwis ''kiwi'' TEXTURE (Fin 3) = Fin (1 / sqrt (2 * CV_PI) * exp (- 1 / 2))
   \<and> calcHSVCT_PDF kiwis ''kiwi'' TEXTURE (Fin 2) \<noteq> calcHSVCT_PDF kiwis ''kiwi'' TEXTURE (Fin 3)
   \<and> fst (calcPosterior kiwis ''kiwi'' sample2 (Fin 2) (Fin 2)) =
       Fin (1 / sqrt (2 * CV_PI) * (1 / sqrt (2 * CV_PI)) * (1 / sqrt (2 * CV_PI))
            * (1 / sqrt (2 * CV_PI)))"
proof -
  have pos: "0 < CV_PI" by (simp add: CV_PI_def)
  have pdf: "calcHSVCT_PDF kiwis ''kiwi'' (attr_of feature) (Fin x) =
      Fin (1 / sqrt (2 * CV_PI) * exp (- ((x - 2)\<^sup>2) / 2))" for feature x
    using pdf_positive_sd [OF kiwis_sd _ kiwis_mean, of feature "Fin x"] by simp
  have t2: "calcHSVCT_PDF kiwis ''kiwi'' TEXTURE (Fin 2) = Fin (1 / sqrt (2 * CV_PI))"
    using pdf [of Texture 2] by simp
  have t3: "calcHSVCT_PDF kiwis ''kiwi'' TEXTURE (Fin 3) = Fin (1 / sqrt (2 * CV_PI) * exp (- 1 / 2))"
    using pdf [of Texture 3] by simp
  have ne: "calcHSVCT_PDF kiwis ''kiwi'' TEXTURE (Fin 2) \<noteq> calcHSVCT_PDF kiwis ''kiwi'' TEXTURE (Fin 3)"
    using pos by (simp add: t2 t3)
  have post: "fst (calcPosterior kiwis ''kiwi'' sample2 (Fin 2) (Fin 2)) =
       Fin (1 / sqrt (2 * CV_PI) * (1 / sqrt (2 * CV_PI)) * (1 / sqrt (2 * CV_PI))
            * (1 / sqrt (2 * CV_PI)))"
    using calcPosterior_product_excludes_texture [of kiwis "''kiwi''" sample2 "Fin 2" "Fin 2" "Fin 3"]
      pdf [of Hue 2] pdf [of Saturation 2] pdf [of Value 2] pdf [of Compactness 2]
    by (simp add: sample2_def)
  have eq: "fst (calcPosterior kiwis ''kiwi'' sample2 (Fin 2) (Fin 2)) =
     fst (calcPosterior kiwis ''kiwi'' sample2 (Fin 2) (Fin 3))"
    using calcPosterior_product_excludes_texture [of kiwis "''kiwi''" sample2 "Fin 2" "Fin 2" "Fin 3"]
    by blast
  from eq t2 t3 ne post show ?thesis by blast
qed



subsection \<open>The posteriors of all classes\<close>

declare calcPosteriors_loop.simps [simp del]

lemma calcPosteriors_loop_step:
  assumes "cls < NCLASSES" and "cls < length classes"
  shows "calcPosteriors_loop tData classes hsv cS tex cls (post, out) =
     calcPosteriors_loop tData classes hsv cS tex (Suc cls)
       (post @ [(className (classes ! cls),
                 fst (calcPosterior tData (className (classes ! cls)) hsv cS tex))],
        out @ snd (calcPosterior tData (className (classes ! cls)) hsv cS tex))"
  using assms
  by (subst calcPosteriors_loop.simps) (simp add: case_prod_beta addPosterior_def)

lemma calcPosteriors_loop_eq:
  assumes "NCLASSES \<le> length classes"
  shows "cls \<le> NCLASSES \<Longrightarrow>
    calcPosteriors_loop tData classes hsv cS tex cls (post, out) =
      Some (post @ map (\<lambda>k. (className k, fst (calcPosterior tData (className k) hsv cS tex)))
                     (drop cls (take NCLASSES classes)),
            out @ concat (map (\<lambda>k. snd (calcPosterior tData (className k) hsv cS tex))
                            (drop cls (take NCLASSES classes))))"
proof (induction "NCLASSES - cls" arbitrary: cls post out)
  case 0
  then have "cls = NCLASSES" by simp
  then show ?case
    by (subst calcPosteriors_loop.simps) simp
next
  case (Suc n)
  then have lt: "cls < NCLASSES" and n: "n = NCLASSES - Suc cls" and le: "Suc cls \<le> NCLASSES"
    by simp_all
  from lt assms have inb: "cls < length classes" by simp
  have split: "drop cls (take NCLASSES classes) =
      classes ! cls # drop (Suc cls) (take NCLASSES classes)"
    using lt inb by (simp add: Cons_nth_drop_Suc [symmetric])
  show ?case
    by (simp add: calcPosteriors_loop_step [OF lt inb] Suc.hyps(1) [OF n le] split)
qed


lemma posterior_lines_append:
  "posterior_lines (xs @ ys) = posterior_lines xs @ posterior_lines ys"
  by (induction xs rule: posterior_lines.induct) simp_all

lemma posterior_lines_calcPosterior:
  "posterior_lines (snd (calcPosterior tData cls hsv cS tex)) =
     [(cls, fst (calcPosterior tData cls hsv cS tex))]"
  by (simp add: calcPosterior_def Let_def)

lemma posterior_lines_concat:
  "posterior_lines (concat (map (\<lambda>k. snd (calcPosterior tData (className k) hsv cS tex)) ks)) =
     map (\<lambda>k. (className k, fst (calcPosterior tData (className k) hsv cS tex))) ks"
  by (induction ks) (simp_all add: posterior_lines_append posterior_lines_calcPosterior)

text \<open>
  C8. Given the array of candidate classes with its \<open>NCLASSES = 7\<close> entries,
  \<open>calcPosteriors\<close> returns one (label, score) pair for each of them, in the order of
  the array, the score being what \<open>calcPosterior\<close> returns for the label; it does not
  sort, normalise or select. \<open>calcPosterior\<close> is called once for each class, in that
  order: the posterior lines printed are the pairs returned. This holds whatever the scores
  are, all 0.0 included.
\<close>

theorem calcPosteriors_one_entry_per_class:
  assumes "NCLASSES \<le> length classes"
  shows "\<exists>post out.
      calcPosteriors tData classes hsv cS tex = Some (post, out)
    \<and> post = map (\<lambda>k. (className k, fst (calcPosterior tData (className k) hsv cS tex)))
               (take NCLASSES classes)
    \<and> out = concat (map (\<lambda>k. snd (calcPosterior tData (className k) hsv cS tex))
                     (take NCLASSES classes))
    \<and> length post = 7
    \<and> map fst post = map className (take NCLASSES classes)
    \<and> posterior_lines out = post"
proof -
  have "calcPosteriors tData classes hsv cS tex =
      Some (map (\<lambda>k. (className k, fst (calcPosterior tData (className k) hsv cS tex)))
              (take NCLASSES classes),
            concat (map (\<lambda>k. snd (calcPosterior tData (className k) hsv cS tex))
                     (take NCLASSES classes)))"
    using calcPosteriors_loop_eq [OF assms, of 0 tData hsv cS tex "[]" "[]"]
    by (simp add: calcPosteriors_def)
  moreover have "length (take NCLASSES classes) = 7"
    using assms by (simp add: NCLASSES_def)
  ultimately show ?thesis
    by (simp add: posterior_lines_concat comp_def)
qed

theorem calcPosteriors_one_entry_per_class_witness:
  "NCLASSES \<le> length seven_classes
   \<and> map_option fst (calcPosteriors [] seven_classes sample2 (Fin 2) (Fin 2)) =
       Some [(''apple'', Fin 0), (''banana'', Fin 0), (''cherry'', Fin 0), (''kiwi'', Fin 0),
             (''lemon'', Fin 0), (''orange'', Fin 0), (''pear'', Fin 0)]"
  using calcPosteriors_one_entry_per_class [of seven_classes "[]" sample2 "Fin 2" "Fin 2"]
  by (auto simp add: NCLASSES_def seven_classes_def candidate_def calcPosterior_def pdf_no_data Let_def)




end
